theory Spec2Isabelle
  imports Main "HOL-Library.AList" "HOL-Library.Char_ord" "HOL-Library.List_Lexorder"
    "HOL-Library.Multiset"
begin

section \<open>Values, exceptions and the Python library calls the scripts rely on\<close>

text \<open>
  A document loaded by \<open>yaml.safe_load\<close> (and a JSON body) is a tagged value.  A mapping
  is an association list in insertion order, as a Python \<open>dict\<close> is; its keys are values
  themselves, because YAML allows keys that are not strings.  Floats, timestamps and
  binary scalars do not occur in the scripts' inputs and are left out.  Strings are
  ASCII texts.
\<close>

datatype yval =
    YNull
  | YBool bool
  | YInt int
  | YStr string
  | YList "yval list"
  | YMap "(yval \<times> yval) list"

text \<open>The exceptions that the modelled code can raise or receive.\<close>

datatype error =
    AttributeError
  | TypeError
  | ValueError
  | KeyError
  | OSError
  | YAMLError
  | RequestException

text \<open>Python truthiness (\<open>not x\<close>, \<open>if x:\<close>).\<close>

fun py_truthy :: "yval \<Rightarrow> bool" where
  "py_truthy YNull = False"
| "py_truthy (YBool b) = b"
| "py_truthy (YInt i) = (i \<noteq> 0)"
| "py_truthy (YStr s) = (s \<noteq> [])"
| "py_truthy (YList xs) = (xs \<noteq> [])"
| "py_truthy (YMap m) = (m \<noteq> [])"

text \<open>\<open>isinstance(x, list)\<close>.\<close>

fun is_list :: "yval \<Rightarrow> bool" where
  "is_list (YList xs) = True"
| "is_list v = False"

text \<open>\<open>d.get(key, default)\<close> on a \<open>dict\<close>.\<close>

definition dict_get :: "(yval \<times> yval) list \<Rightarrow> yval \<Rightarrow> yval \<Rightarrow> yval" where
  "dict_get d k dflt = (case map_of d k of None \<Rightarrow> dflt | Some v \<Rightarrow> v)"

subsection \<open>Strings\<close>

text \<open>\<open>s.startswith(p)\<close>, \<open>s.endswith(p)\<close> and the substring test \<open>p in s\<close>.\<close>

fun startswith :: "string \<Rightarrow> string \<Rightarrow> bool" where
  "startswith s [] = True"
| "startswith [] (p # ps) = False"
| "startswith (c # cs) (p # ps) = (c = p \<and> startswith cs ps)"

definition endswith :: "string \<Rightarrow> string \<Rightarrow> bool" where
  "endswith s p = startswith (rev s) (rev p)"

fun str_contains :: "string \<Rightarrow> string \<Rightarrow> bool" where
  "str_contains p [] = (p = [])"
| "str_contains p (c # cs) = (startswith (c # cs) p \<or> str_contains p cs)"

text \<open>
  \<open>sep.join(parts)\<close>: every part has to be a \<open>str\<close>, otherwise Python raises
  \<open>TypeError\<close>.
\<close>

fun join_strs :: "string \<Rightarrow> string list \<Rightarrow> string" where
  "join_strs sep [] = []"
| "join_strs sep [s] = s"
| "join_strs sep (s # t # ts) = s @ sep @ join_strs sep (t # ts)"

fun as_strs :: "yval list \<Rightarrow> error + string list" where
  "as_strs [] = Inr []"
| "as_strs (YStr s # vs) = (case as_strs vs of Inl e \<Rightarrow> Inl e | Inr ss \<Rightarrow> Inr (s # ss))"
| "as_strs (v # vs) = Inl TypeError"

definition str_join :: "string \<Rightarrow> yval list \<Rightarrow> error + string" where
  "str_join sep parts = (case as_strs parts of Inl e \<Rightarrow> Inl e | Inr ss \<Rightarrow> Inr (join_strs sep ss))"

text \<open>\<open>s.replace('_', ' ')\<close>.\<close>

definition replace_underscores :: "string \<Rightarrow> string" where
  "replace_underscores s = map (\<lambda>c. if c = CHR ''_'' then CHR '' '' else c) s"

text \<open>
  \<open>s.title()\<close> on ASCII text: a letter that follows a letter is lower-cased, any other
  letter is upper-cased, and a character that is not a letter starts a new word.
\<close>

definition ascii_lower :: string where
  "ascii_lower = ''abcdefghijklmnopqrstuvwxyz''"

definition ascii_upper :: string where
  "ascii_upper = ''ABCDEFGHIJKLMNOPQRSTUVWXYZ''"

definition to_upper :: "char \<Rightarrow> char" where
  "to_upper c = (case map_of (zip ascii_lower ascii_upper) c of None \<Rightarrow> c | Some u \<Rightarrow> u)"

definition to_lower :: "char \<Rightarrow> char" where
  "to_lower c = (case map_of (zip ascii_upper ascii_lower) c of None \<Rightarrow> c | Some l \<Rightarrow> l)"

fun title_from :: "bool \<Rightarrow> string \<Rightarrow> string" where
  "title_from previous_is_cased [] = []"
| "title_from previous_is_cased (c # cs) =
     (if c \<in> set ascii_lower then
        (if previous_is_cased then c else to_upper c) # title_from True cs
      else if c \<in> set ascii_upper then
        (if previous_is_cased then to_lower c else c) # title_from True cs
      else c # title_from False cs)"

definition title :: "string \<Rightarrow> string" where
  "title s = title_from False s"

subsection \<open>Paths\<close>

text \<open>
  \<open>Path(p).stem\<close> for a POSIX path: the path is cut at \<open>/\<close>, empty and \<open>.\<close>
  components are dropped, \<open>name\<close> is the last component that is left (empty when there
  is none), and \<open>stem\<close> is the name without its last suffix: with \<open>i\<close> the position of
  the last dot, the name is cut at \<open>i\<close> when \<open>0 < i < len(name) - 1\<close>.
\<close>

fun split_on :: "char \<Rightarrow> string \<Rightarrow> string list" where
  "split_on d [] = [[]]"
| "split_on d (c # cs) =
     (if c = d then [] # split_on d cs
      else (case split_on d cs of [] \<Rightarrow> [[c]] | w # ws \<Rightarrow> (c # w) # ws))"

definition path_name :: "string \<Rightarrow> string" where
  "path_name p =
     (case rev (filter (\<lambda>part. part \<noteq> [] \<and> part \<noteq> ''.'') (split_on CHR ''/'' p)) of
        [] \<Rightarrow> []
      | n # _ \<Rightarrow> n)"

fun rfind :: "char \<Rightarrow> string \<Rightarrow> nat option" where
  "rfind d [] = None"
| "rfind d (c # cs) =
     (case rfind d cs of
        Some i \<Rightarrow> Some (Suc i)
      | None \<Rightarrow> if c = d then Some 0 else None)"

definition name_stem :: "string \<Rightarrow> string" where
  "name_stem n =
     (case rfind CHR ''.'' n of
        None \<Rightarrow> n
      | Some i \<Rightarrow> if 0 < i \<and> Suc i < length n then take i n else n)"

definition path_stem :: "string \<Rightarrow> string" where
  "path_stem p = name_stem (path_name p)"

subsection \<open>\<open>int(s)\<close>\<close>

text \<open>
  \<open>int(s)\<close> on an ASCII string: surrounding whitespace (space, tab, line feed,
  vertical tab, form feed, carriage return) is stripped, one sign is allowed, and what
  is left has to be decimal digits, with single underscores allowed between digits.
  Anything else raises \<open>ValueError\<close>.
\<close>

definition ascii_digits :: string where
  "ascii_digits = ''0123456789''"

definition ascii_space :: "char list" where
  "ascii_space = [CHR '' '', CHR 0x09, CHR 0x0A, CHR 0x0B, CHR 0x0C, CHR 0x0D]"

definition strip :: "string \<Rightarrow> string" where
  "strip s = rev (dropWhile (\<lambda>c. c \<in> set ascii_space) (rev (dropWhile (\<lambda>c. c \<in> set ascii_space) s)))"

definition digit_val :: "char \<Rightarrow> nat" where
  "digit_val c = (case map_of (zip ascii_digits [0 ..< 10]) c of None \<Rightarrow> 0 | Some d \<Rightarrow> d)"

fun digits_from :: "nat \<Rightarrow> string \<Rightarrow> nat option" where
  "digits_from acc [] = Some acc"
| "digits_from acc [c] =
     (if c \<in> set ascii_digits then Some (10 * acc + digit_val c) else None)"
| "digits_from acc (c # d # cs) =
     (if c \<in> set ascii_digits then
        (if d = CHR ''_'' then
           (if cs = [] then None else digits_from (10 * acc + digit_val c) cs)
         else digits_from (10 * acc + digit_val c) (d # cs))
      else None)"

definition py_int :: "string \<Rightarrow> error + int" where
  "py_int s =
     (let t = strip s;
          neg = (t \<noteq> [] \<and> hd t = CHR ''-'');
          body = (if t \<noteq> [] \<and> (hd t = CHR ''-'' \<or> hd t = CHR ''+'') then tl t else t)
      in if body = [] then Inl ValueError
         else (case digits_from 0 body of
                 None \<Rightarrow> Inl ValueError
               | Some n \<Rightarrow> Inr (if neg then - int n else int n)))"

section \<open>create\_awx\_templates: PlaybookParser\<close>

text \<open>
  \<open>CONFIG\<close>: the identifiers are the strings read from the environment.
\<close>

record config =
  awx_url :: string
  awx_token :: string
  project_id :: string
  inventory_id :: string
  credential_id :: string
  execution_environment_id :: string
  playbook_dir :: string
  verify_ssl :: bool

text \<open>
  The dictionary returned by \<open>parse_playbook\<close>; \<open>None\<close> stands for the empty dictionary
  \<open>{}\<close> it returns for a document it does not accept.
\<close>

record playbook_meta =
  pm_name :: yval
  pm_hosts :: yval
  pm_vars :: yval
  pm_filepath :: string

text \<open>
  \<open>parse_playbook\<close>.  Opening and loading the file is the outcome \<open>loaded\<close>: the loaded
  document, or the exception raised by \<open>open\<close> or \<open>yaml.safe_load\<close>.  \<open>rel_path\<close> is
  \<open>str(rel_path)\<close>, the path relative to the working directory of the process, or the
  path as given when it does not lie below it.  A first play that is not a mapping has
  no \<open>get\<close>.
\<close>

definition parse_playbook :: "string \<Rightarrow> error + yval \<Rightarrow> error + playbook_meta option" where
  "parse_playbook rel_path loaded =
     (case loaded of
        Inl e \<Rightarrow> Inl e
      | Inr playbook \<Rightarrow>
          if \<not> py_truthy playbook \<or> \<not> is_list playbook then Inr None
          else (case playbook of
                  YList (YMap play # rest) \<Rightarrow>
                    Inr (Some \<lparr> pm_name = dict_get play (YStr ''name'') (YStr ''''),
                                pm_hosts = dict_get play (YStr ''hosts'') (YStr ''localhost''),
                                pm_vars = dict_get play (YStr ''vars'') (YMap []),
                                pm_filepath = rel_path \<rparr>)
                | _ \<Rightarrow> Inl AttributeError))"

text \<open>
  \<open>extract_extra_vars\<close>: the loop over \<open>var_keys\<close>, assigning into \<open>extra_vars\<close>.
  On a value that is not a mapping, \<open>key in playbook_vars\<close> is the membership test of
  a list or the substring test of a string, the subscript that follows a hit raises
  \<open>TypeError\<close>, and the test itself raises it on the other values.
\<close>

definition var_keys :: "string list" where
  "var_keys = [''k3s_context'', ''esphome_namespace'', ''esphome_deployment_name'',
               ''esphome_timeout'', ''esphome_no_logs'']"

fun extract_loop ::
  "(yval \<times> yval) list \<Rightarrow> string list \<Rightarrow> (yval \<times> yval) list \<Rightarrow> (yval \<times> yval) list" where
  "extract_loop playbook_vars [] extra_vars = extra_vars"
| "extract_loop playbook_vars (key # keys) extra_vars =
     extract_loop playbook_vars keys
       (case map_of playbook_vars (YStr key) of
          Some v \<Rightarrow> AList.update (YStr key) v extra_vars
        | None \<Rightarrow> extra_vars)"

fun extract_extra_vars :: "yval \<Rightarrow> error + (yval \<times> yval) list" where
  "extract_extra_vars (YMap playbook_vars) = Inr (extract_loop playbook_vars var_keys [])"
| "extract_extra_vars (YList xs) =
     (if \<exists>key \<in> set var_keys. YStr key \<in> set xs then Inl TypeError else Inr [])"
| "extract_extra_vars (YStr s) =
     (if \<exists>key \<in> set var_keys. str_contains key s then Inl TypeError else Inr [])"
| "extract_extra_vars v = Inl TypeError"

text \<open>
  \<open>generate_description\<close>: the loop over \<open>playbook_vars.keys()\<close>, then the join.  A key
  that is not a string has no \<open>endswith\<close>; \<open>playbook_vars.keys()\<close> exists on a mapping
  only.  \<open>desc_parts\<close> starts with the playbook name as it is, so the final join raises
  \<open>TypeError\<close> when that name is not a string.
\<close>

fun description_loop ::
  "(yval \<times> yval) list \<Rightarrow> yval list \<Rightarrow> yval list \<Rightarrow> error + yval list" where
  "description_loop playbook_vars [] desc_parts = Inr desc_parts"
| "description_loop playbook_vars (key # keys) desc_parts =
     (case key of
        YStr k \<Rightarrow>
          if endswith k ''_patterns'' then
            (case map_of playbook_vars key of
               None \<Rightarrow> Inl KeyError
             | Some (YList patterns) \<Rightarrow>
                 (case str_join '', '' patterns of
                    Inl e \<Rightarrow> Inl e
                  | Inr joined \<Rightarrow>
                      description_loop playbook_vars keys
                        (desc_parts @ [YStr (''Patterns: '' @ joined)]))
             | Some _ \<Rightarrow> description_loop playbook_vars keys desc_parts)
          else description_loop playbook_vars keys desc_parts
      | _ \<Rightarrow> Inl AttributeError)"

fun generate_description :: "yval \<Rightarrow> yval \<Rightarrow> error + string" where
  "generate_description playbook_name (YMap playbook_vars) =
     (case description_loop playbook_vars (map fst playbook_vars) [playbook_name] of
        Inl e \<Rightarrow> Inl e
      | Inr desc_parts \<Rightarrow> str_join '' | '' desc_parts)"
| "generate_description playbook_name v = Inl AttributeError"

section \<open>create\_awx\_templates: build\_template\_data\<close>

text \<open>
  The text produced by \<open>yaml.dump(extra_vars, default_flow_style=False)\<close> is kept
  symbolic: the document that serialises the given mapping.
\<close>

datatype yaml_text = yaml_dump "(yval \<times> yval) list"

text \<open>
  The job template payload.  The three optional keys are present in the dictionary only
  when the code sets them.
\<close>

record template_data =
  td_name :: yval
  td_description :: string
  td_job_type :: string
  td_inventory :: int
  td_project :: int
  td_playbook :: string
  td_ask_variables_on_launch :: bool
  td_extra_vars :: yaml_text
  td_credentials :: "int list option"
  td_execution_environment :: "int option"
  td_ask_limit_on_launch :: "bool option"

text \<open>The name given to the template: the playbook's name, or one made from the file name.\<close>

definition template_name_of :: "playbook_meta \<Rightarrow> yval" where
  "template_name_of playbook_meta =
     (if py_truthy (pm_name playbook_meta) then pm_name playbook_meta
      else YStr (title (replace_underscores (path_stem (pm_filepath playbook_meta)))))"

text \<open>An exception ends the computation; otherwise the next statement runs.\<close>

definition and_then :: "error + 'a \<Rightarrow> ('a \<Rightarrow> error + 'b) \<Rightarrow> error + 'b" where
  "and_then r f = (case r of Inl e \<Rightarrow> Inl e | Inr x \<Rightarrow> f x)"

definition build_template_data :: "playbook_meta \<Rightarrow> config \<Rightarrow> error + template_data" where
  "build_template_data playbook_meta cfg =
     (let template_name = template_name_of playbook_meta in
      and_then (extract_extra_vars (pm_vars playbook_meta)) (\<lambda>extra_vars.
      and_then (generate_description (pm_name playbook_meta) (pm_vars playbook_meta)) (\<lambda>description.
      and_then (py_int (inventory_id cfg)) (\<lambda>inventory.
      and_then (py_int (project_id cfg)) (\<lambda>project.
      and_then (if credential_id cfg \<noteq> []
                then and_then (py_int (credential_id cfg)) (\<lambda>c. Inr (Some [c]))
                else Inr None) (\<lambda>credentials.
      and_then (if execution_environment_id cfg \<noteq> []
                then and_then (py_int (execution_environment_id cfg)) (\<lambda>x. Inr (Some x))
                else Inr None) (\<lambda>execution_environment.
      Inr \<lparr> td_name = template_name,
            td_description = description,
            td_job_type = ''run'',
            td_inventory = inventory,
            td_project = project,
            td_playbook = pm_filepath playbook_meta,
            td_ask_variables_on_launch = True,
            td_extra_vars = yaml_dump extra_vars,
            td_credentials = credentials,
            td_execution_environment = execution_environment,
            td_ask_limit_on_launch =
              (if str_contains ''target_device'' (pm_filepath playbook_meta)
                  \<or> str_contains ''all'' (pm_filepath playbook_meta)
               then Some False else None) \<rparr>)))))))"

section \<open>create\_awx\_templates: AWXTemplateManager\<close>

text \<open>
  The remote service is a parameter: one function for each of the four requests the
  manager sends, from the service's state to the outcome of \<open>_api_call\<close> (the decoded
  body, or the exception raised) and the next state.  A job template as the service
  returns it has an \<open>id\<close> beside its fields.  Every request sent is recorded in a log.
\<close>

record resource =
  res_id :: int
  res_data :: template_data

record 's remote =
  list_job_templates :: "yval \<Rightarrow> 's \<Rightarrow> (error + resource list) \<times> 's"
  post_job_template :: "template_data \<Rightarrow> 's \<Rightarrow> (error + resource) \<times> 's"
  patch_job_template :: "int \<Rightarrow> template_data \<Rightarrow> 's \<Rightarrow> (error + resource) \<times> 's"
  post_credential :: "int \<Rightarrow> int \<Rightarrow> 's \<Rightarrow> (error + unit) \<times> 's"

datatype request =
    GET_job_templates yval
  | POST_job_templates template_data
  | PATCH_job_template int template_data
  | POST_credentials int int

record 's world =
  srv :: 's
  sent :: "request list"

definition sending :: "request \<Rightarrow> ('s \<Rightarrow> 'r \<times> 's) \<Rightarrow> 's world \<Rightarrow> 'r \<times> 's world" where
  "sending rq f w = (case f (srv w) of (r, s') \<Rightarrow> (r, \<lparr> srv = s', sent = sent w @ [rq] \<rparr>))"

text \<open>
  \<open>get_template\<close>: the first result, or \<open>None\<close>; a \<open>RequestException\<close> is caught and
  gives \<open>None\<close> too.
\<close>

definition get_template :: "'s remote \<Rightarrow> yval \<Rightarrow> 's world \<Rightarrow> (error + resource option) \<times> 's world" where
  "get_template R name w =
     (case sending (GET_job_templates name) (list_job_templates R name) w of
        (Inr results, w') \<Rightarrow> (Inr (case results of [] \<Rightarrow> None | r # _ \<Rightarrow> Some r), w')
      | (Inl e, w') \<Rightarrow> (if e = RequestException then Inr None else Inl e, w'))"

definition create_template :: "'s remote \<Rightarrow> template_data \<Rightarrow> 's world \<Rightarrow> (error + resource) \<times> 's world" where
  "create_template R template_data w =
     sending (POST_job_templates template_data) (post_job_template R template_data) w"

definition update_template ::
  "'s remote \<Rightarrow> int \<Rightarrow> template_data \<Rightarrow> 's world \<Rightarrow> (error + resource) \<times> 's world" where
  "update_template R template_id template_data w =
     sending (PATCH_job_template template_id template_data)
       (patch_job_template R template_id template_data) w"

text \<open>
  \<open>associate_credentials\<close>: one request for each credential; whatever a request raises
  is caught and printed as a warning, and the loop goes on.
\<close>

fun associate_credentials :: "'s remote \<Rightarrow> int \<Rightarrow> int list \<Rightarrow> 's world \<Rightarrow> 's world" where
  "associate_credentials R template_id [] w = w"
| "associate_credentials R template_id (cred_id # credential_ids) w =
     associate_credentials R template_id credential_ids
       (snd (sending (POST_credentials template_id cred_id)
               (post_credential R template_id cred_id) w))"

text \<open>
  \<open>create_or_update_template\<close>.  The credentials are popped from the payload (the
  caller's dictionary loses them too) before the payload is sent.
\<close>

definition link_credentials :: "'s remote \<Rightarrow> int \<Rightarrow> int list option \<Rightarrow> 's world \<Rightarrow> 's world" where
  "link_credentials R template_id credentials w =
     (case credentials of
        None \<Rightarrow> w
      | Some credential_ids \<Rightarrow>
          if credential_ids \<noteq> [] then associate_credentials R template_id credential_ids w
          else w)"

definition create_or_update_template ::
  "'s remote \<Rightarrow> template_data \<Rightarrow> 's world \<Rightarrow> (error + resource) \<times> 's world" where
  "create_or_update_template R template_data w =
     (case get_template R (td_name template_data) w of
        (Inl e, w1) \<Rightarrow> (Inl e, w1)
      | (Inr existing, w1) \<Rightarrow>
          (let credentials = td_credentials template_data;
               payload = template_data \<lparr> td_credentials := None \<rparr>
           in case existing of
                Some ex \<Rightarrow>
                  (case update_template R (res_id ex) payload w1 of
                     (Inl e, w2) \<Rightarrow> (Inl e, w2)
                   | (Inr result, w2) \<Rightarrow>
                       (Inr result, link_credentials R (res_id ex) credentials w2))
              | None \<Rightarrow>
                  (case create_template R payload w1 of
                     (Inl e, w2) \<Rightarrow> (Inl e, w2)
                   | (Inr result, w2) \<Rightarrow>
                       (Inr result, link_credentials R (res_id result) credentials w2))))"

section \<open>create\_awx\_templates: the loop of main over the playbooks\<close>

text \<open>
  A scanned file: \<open>playbook_path.name\<close>, the path string that \<open>parse_playbook\<close> puts into
  the metadata, and what opening and loading the file gives.
\<close>

record playbook_file =
  pf_name :: string
  pf_rel_path :: string
  pf_loaded :: "error + yval"

record results =
  created :: "yval list"
  updated :: "yval list"
  failed :: "string list"

text \<open>
  The body of the loop.  Any exception inside the \<open>try\<close> puts the file name into
  \<open>failed\<close>; requests already sent stay sent.  \<open>{}.get('name')\<close> is \<open>None\<close>, so the
  empty dictionary is skipped like a playbook without a name.  After a result with an
  \<open>id\<close> that is not zero, the template is looked up once more to choose the list.
\<close>

definition record_failure :: "playbook_file \<Rightarrow> results \<Rightarrow> results" where
  "record_failure f res = res \<lparr> failed := failed res @ [pf_name f] \<rparr>"

definition process_playbook ::
  "'s remote \<Rightarrow> config \<Rightarrow> playbook_file \<Rightarrow> 's world \<times> results \<Rightarrow> 's world \<times> results" where
  "process_playbook R cfg f st =
     (let w = fst st; res = snd st in
      (case parse_playbook (pf_rel_path f) (pf_loaded f) of
        Inl e \<Rightarrow> (w, record_failure f res)
      | Inr None \<Rightarrow> (w, res)
      | Inr (Some playbook_meta) \<Rightarrow>
          if \<not> py_truthy (pm_name playbook_meta) then (w, res)
          else (case build_template_data playbook_meta cfg of
                  Inl e \<Rightarrow> (w, record_failure f res)
                | Inr template_data \<Rightarrow>
                    (case create_or_update_template R template_data w of
                       (Inl e, w1) \<Rightarrow> (w1, record_failure f res)
                     | (Inr result, w1) \<Rightarrow>
                         if res_id result \<noteq> 0 then
                           (case get_template R (td_name template_data) w1 of
                              (Inl e, w2) \<Rightarrow> (w2, record_failure f res)
                            | (Inr (Some found), w2) \<Rightarrow>
                                (w2, res \<lparr> updated := updated res @ [td_name template_data] \<rparr>)
                            | (Inr None, w2) \<Rightarrow>
                                (w2, res \<lparr> created := created res @ [td_name template_data] \<rparr>))
                         else (w1, res)))))"

fun process_playbooks ::
  "'s remote \<Rightarrow> config \<Rightarrow> playbook_file list \<Rightarrow> 's world \<times> results \<Rightarrow> 's world \<times> results" where
  "process_playbooks R cfg [] st = st"
| "process_playbooks R cfg (f # fs) st = process_playbooks R cfg fs (process_playbook R cfg f st)"

definition no_results :: results where
  "no_results = \<lparr> created = [], updated = [], failed = [] \<rparr>"

section \<open>update\_awx\_k3s\_app\_survey: build\_survey\_spec\<close>

record question =
  question_name :: string
  question_description :: string
  required :: bool
  qtype :: string
  variable :: string
  qmin :: "int option"
  qmax :: "int option"
  qdefault :: string
  choices :: "string list"
  new_question :: bool

record survey_spec =
  survey_name :: string
  survey_description :: string
  spec :: "question list"

text \<open>
  \<open>build_survey_spec\<close>.  The applications are a mapping from application names
  (strings) to their entries; \<open>sorted\<close> compares strings lexicographically, character by
  character.
\<close>

definition build_survey_spec :: "(string \<times> 'a) list \<Rightarrow> survey_spec" where
  "build_survey_spec applications =
     (let app_names = sort (map fst applications)
      in \<lparr> survey_name = ''K3s Application Update Survey'',
           survey_description = ''Select which K3s application to update'',
           spec = [\<lparr> question_name = ''Application Name'',
                     question_description = ''Which application do you want to update?'',
                     required = True,
                     qtype = ''multiplechoice'',
                     variable = ''app_name'',
                     qmin = None,
                     qmax = None,
                     qdefault = '''',
                     choices = app_names,
                     new_question = True \<rparr>] \<rparr>)"

section \<open>A remote service to run the manager against\<close>

text \<open>
  The job-orchestration service itself is an external system.  To run the manager on
  concrete inputs, this is one service with the REST interface that the manager uses.  It
  keeps the job templates and the credential links.  A lookup by name returns the
  templates of that name; a creation is refused when the name is taken and otherwise
  stores the payload under a fresh identifier; an update replaces the fields that the
  payload carries; a link or an update for an identifier that does not exist is
  refused.  A refused request is an HTTP error, which \<open>_api_call\<close> raises as a
  \<open>RequestException\<close>.
\<close>

record awx =
  awx_templates :: "resource list"
  awx_links :: "(int \<times> int) list"

definition awx_fresh_id :: "awx \<Rightarrow> int" where
  "awx_fresh_id s = 1 + fold max (map res_id (awx_templates s)) 0"

definition awx_patch :: "template_data \<Rightarrow> template_data \<Rightarrow> template_data" where
  "awx_patch old payload =
     payload \<lparr> td_credentials :=
                 (case td_credentials payload of None \<Rightarrow> td_credentials old | Some c \<Rightarrow> Some c),
               td_execution_environment :=
                 (case td_execution_environment payload of
                    None \<Rightarrow> td_execution_environment old | Some x \<Rightarrow> Some x),
               td_ask_limit_on_launch :=
                 (case td_ask_limit_on_launch payload of
                    None \<Rightarrow> td_ask_limit_on_launch old | Some b \<Rightarrow> Some b) \<rparr>"

definition awx_service :: "awx remote" where
  "awx_service =
     \<lparr> list_job_templates = (\<lambda>name s.
         (Inr (filter (\<lambda>r. td_name (res_data r) = name) (awx_templates s)), s)),
       post_job_template = (\<lambda>payload s.
         if td_name payload \<in> set (map (\<lambda>r. td_name (res_data r)) (awx_templates s))
         then (Inl RequestException, s)
         else (let r = \<lparr> res_id = awx_fresh_id s, res_data = payload \<rparr>
               in (Inr r, s \<lparr> awx_templates := awx_templates s @ [r] \<rparr>))),
       patch_job_template = (\<lambda>template_id payload s.
         case find (\<lambda>r. res_id r = template_id) (awx_templates s) of
           None \<Rightarrow> (Inl RequestException, s)
         | Some old \<Rightarrow>
             (let r = \<lparr> res_id = template_id, res_data = awx_patch (res_data old) payload \<rparr>
              in (Inr r, s \<lparr> awx_templates :=
                                map (\<lambda>x. if res_id x = template_id then r else x)
                                  (awx_templates s) \<rparr>))),
       post_credential = (\<lambda>template_id cred_id s.
         if template_id \<in> set (map res_id (awx_templates s))
         then (Inr (), s \<lparr> awx_links := awx_links s @ [(template_id, cred_id)] \<rparr>)
         else (Inl RequestException, s)) \<rparr>"


definition awx_empty :: "awx world" where
  "awx_empty = \<lparr> srv = \<lparr> awx_templates = [], awx_links = [] \<rparr>, sent = [] \<rparr>"

text \<open>A configuration as the environment of a run gives it.\<close>

definition esphome_config :: config where
  "esphome_config =
     \<lparr> awx_url = ''https://awx.example.com'',
       awx_token = ''secret'',
       project_id = ''7'',
       inventory_id = ''3'',
       credential_id = ''5'',
       execution_environment_id = '''',
       playbook_dir = ''playbooks/esphome'',
       verify_ssl = True \<rparr>"

text \<open>
  Example inputs: a playbook without a name that sets the timeout and a pattern list, a
  playbook named \<open>Flash Kitchen\<close>, the payload built for the latter, the resource the
  service stores for it, and the service after one reconciliation of it.
\<close>

definition flash_all_meta :: playbook_meta where
  "flash_all_meta =
     \<lparr> pm_name = YStr '''',
       pm_hosts = YStr ''localhost'',
       pm_vars = YMap [(YStr ''esphome_timeout'', YInt 30),
                       (YStr ''device_patterns'', YList [YStr ''a'', YStr ''b''])],
       pm_filepath = ''flash_all.yaml'' \<rparr>"

definition flash_all_file :: playbook_file where
  "flash_all_file =
     \<lparr> pf_name = ''flash_all.yaml'',
       pf_rel_path = ''flash_all.yaml'',
       pf_loaded = Inr (YList [YMap [(YStr ''hosts'', YStr ''localhost''),
                                     (YStr ''vars'', pm_vars flash_all_meta),
                                     (YStr ''tasks'', YList [])]]) \<rparr>"

definition kitchen_meta :: playbook_meta where
  "kitchen_meta =
     \<lparr> pm_name = YStr ''Flash Kitchen'',
       pm_hosts = YStr ''localhost'',
       pm_vars = YMap [(YStr ''esphome_timeout'', YInt 30)],
       pm_filepath = ''playbooks/esphome/flash_kitchen.yaml'' \<rparr>"

definition kitchen_file :: playbook_file where
  "kitchen_file =
     \<lparr> pf_name = ''flash_kitchen.yaml'',
       pf_rel_path = ''playbooks/esphome/flash_kitchen.yaml'',
       pf_loaded = Inr (YList [YMap [(YStr ''name'', YStr ''Flash Kitchen''),
                                     (YStr ''hosts'', YStr ''localhost''),
                                     (YStr ''vars'', YMap [(YStr ''esphome_timeout'', YInt 30)]),
                                     (YStr ''tasks'', YList [])]]) \<rparr>"

definition kitchen_template :: template_data where
  "kitchen_template =
     \<lparr> td_name = YStr ''Flash Kitchen'',
       td_description = ''Flash Kitchen'',
       td_job_type = ''run'',
       td_inventory = 3,
       td_project = 7,
       td_playbook = ''playbooks/esphome/flash_kitchen.yaml'',
       td_ask_variables_on_launch = True,
       td_extra_vars = yaml_dump [(YStr ''esphome_timeout'', YInt 30)],
       td_credentials = Some [5],
       td_execution_environment = None,
       td_ask_limit_on_launch = None \<rparr>"

definition kitchen_resource :: resource where
  "kitchen_resource = \<lparr> res_id = 1, res_data = kitchen_template \<lparr> td_credentials := None \<rparr> \<rparr>"

definition awx_after_first :: "awx world" where
  "awx_after_first = snd (create_or_update_template awx_service kitchen_template awx_empty)"

section \<open>The variable projection\<close>

lemma map_of_extract_loop:
  "map_of (extract_loop pv keys ev) k =
     (if k \<in> YStr ` set keys \<and> map_of pv k \<noteq> None then map_of pv k else map_of ev k)"
proof (induction keys arbitrary: ev)
  case Nil
  show ?case by simp
next
  case (Cons key keys)
  show ?case
    by (cases "map_of pv (YStr key)") (auto simp: Cons.IH update_conv')
qed

lemma distinct_extract_loop:
  "distinct (map fst ev) \<Longrightarrow> distinct (map fst (extract_loop pv keys ev))"
  by (induction keys arbitrary: ev) (auto simp: distinct_update split: option.splits)

text \<open>
  Claim C6.  For every variables mapping, \<open>extract_extra_vars\<close> returns a mapping (it
  does not raise) whose keys are distinct and all among the five keys of \<open>var_keys\<close>; a
  pair it returns is a pair of the source mapping, with the value as it was there; and
  each of the five keys has in the result exactly the value, or the absence, it has
  in the source.  On the empty mapping the result is empty.
\<close>

theorem extract_extra_vars_allow_list:
  "(\<exists>ev. extract_extra_vars (YMap pv) = Inr ev
      \<and> distinct (map fst ev)
      \<and> (\<forall>k v. (k, v) \<in> set ev \<longrightarrow> k \<in> YStr ` set var_keys \<and> map_of pv k = Some v)
      \<and> (\<forall>key \<in> set var_keys. map_of ev (YStr key) = map_of pv (YStr key)))
   \<and> extract_extra_vars (YMap []) = Inr []"
proof -
  let ?ev = "extract_loop pv var_keys []"
  have d: "distinct (map fst ?ev)"
    by (rule distinct_extract_loop) simp
  have m: "map_of ?ev k =
      (if k \<in> YStr ` set var_keys \<and> map_of pv k \<noteq> None then map_of pv k else None)" for k
    by (simp add: map_of_extract_loop)
  have "k \<in> YStr ` set var_keys \<and> map_of pv k = Some v" if "(k, v) \<in> set ?ev" for k v
  proof -
    from that d have "map_of ?ev k = Some v" by simp
    then show ?thesis unfolding m by (auto split: if_splits)
  qed
  moreover have "map_of ?ev (YStr key) = map_of pv (YStr key)" if "key \<in> set var_keys" for key
    using that unfolding m by auto
  moreover have "extract_extra_vars (YMap []) = Inr []"
    by (simp add: var_keys_def)
  ultimately show ?thesis using d by auto
qed

theorem extract_extra_vars_allow_list_witness:
  "extract_extra_vars (YMap [(YStr ''K3S_CONTEXT'', YStr ''prod''),
                             (YStr ''esphome_timeout'', YInt 30),
                             (YStr ''device_patterns'', YList [YStr ''a'', YStr ''b''])])
     = Inr [(YStr ''esphome_timeout'', YInt 30)]
   \<and> (YStr ''esphome_timeout'', YInt 30) \<in> set [(YStr ''esphome_timeout'', YInt 30)]
   \<and> ''esphome_timeout'' \<in> set var_keys"
proof -
  let ?pv = "[(YStr ''K3S_CONTEXT'', YStr ''prod''), (YStr ''esphome_timeout'', YInt 30),
              (YStr ''device_patterns'', YList [YStr ''a'', YStr ''b''])]"
  from extract_extra_vars_allow_list [of ?pv]
  obtain ev where ev: "extract_extra_vars (YMap ?pv) = Inr ev"
    and "\<forall>k v. (k, v) \<in> set ev \<longrightarrow> k \<in> YStr ` set var_keys \<and> map_of ?pv k = Some v"
    by blast
  have "ev = [(YStr ''esphome_timeout'', YInt 30)]"
    using ev by (simp add: var_keys_def)
  with ev show ?thesis by (simp add: var_keys_def)
qed

section \<open>The parser\<close>

text \<open>
  Claim C8.  For a document whose first play is a mapping, \<open>parse_playbook\<close> returns the
  metadata, and there a missing \<open>hosts\<close> is \<open>localhost\<close>, a missing \<open>vars\<close> is the empty
  mapping and a missing \<open>name\<close> is the empty string, whatever the path is: no name is
  derived from the path here.
\<close>

theorem parse_playbook_defaults:
  "\<exists>meta. parse_playbook rel_path (Inr (YList (YMap play # rest))) = Inr (Some meta)
      \<and> pm_filepath meta = rel_path
      \<and> (map_of play (YStr ''hosts'') = None \<longrightarrow> pm_hosts meta = YStr ''localhost'')
      \<and> (map_of play (YStr ''vars'') = None \<longrightarrow> pm_vars meta = YMap [])
      \<and> (map_of play (YStr ''name'') = None \<longrightarrow> pm_name meta = YStr '''')"
  by (simp add: parse_playbook_def dict_get_def)

theorem parse_playbook_defaults_witness:
  "parse_playbook ''playbooks/esphome/flash_all.yaml''
     (Inr (YList [YMap [(YStr ''tasks'', YList [])]]))
   = Inr (Some \<lparr> pm_name = YStr '''', pm_hosts = YStr ''localhost'', pm_vars = YMap [],
                  pm_filepath = ''playbooks/esphome/flash_all.yaml'' \<rparr>)"
  using parse_playbook_defaults
    [of "''playbooks/esphome/flash_all.yaml''" "[(YStr ''tasks'', YList [])]" "[]"]
  by auto

lemma parse_playbook_rejected:
  "\<not> py_truthy doc \<or> \<not> is_list doc \<Longrightarrow> parse_playbook rel_path (Inr doc) = Inr None"
  by (simp add: parse_playbook_def)

text \<open>
  Claim C9, as stated, fails: a document that is a sequence whose first element is not
  a mapping is not a sequence of mappings, and \<open>parse_playbook\<close> raises on it
  (\<open>AttributeError\<close>: the element has no \<open>get\<close>) instead of returning the empty result.
\<close>

theorem parse_playbook_scalar_sequence_raises:
  "parse_playbook ''notes.yaml'' (Inr (YList [YStr ''just a line''])) = Inl AttributeError
   \<and> parse_playbook ''notes.yaml'' (Inr (YList [YStr ''just a line''])) \<noteq> Inr None"
  by (simp add: parse_playbook_def)

text \<open>
  Claim C9, amended.  When the loaded document is empty (null, an empty sequence or any
  other false value) or is not a sequence, \<open>parse_playbook\<close> returns the empty result
  without raising, and the loop of main skips the file and goes on: nothing is sent and
  nothing is counted.
\<close>

theorem parse_playbook_empty_result:
  assumes "\<not> py_truthy doc \<or> \<not> is_list doc"
  shows "parse_playbook rel_path (Inr doc) = Inr None
       \<and> process_playbook R cfg \<lparr> pf_name = n, pf_rel_path = rel_path, pf_loaded = Inr doc \<rparr>
           (w, res) = (w, res)"
  using assms by (simp add: process_playbook_def parse_playbook_rejected)

theorem parse_playbook_empty_result_witness:
  "\<not> py_truthy YNull
   \<and> parse_playbook ''empty.yaml'' (Inr YNull) = Inr None
   \<and> process_playbook awx_service esphome_config
        \<lparr> pf_name = ''empty.yaml'', pf_rel_path = ''empty.yaml'', pf_loaded = Inr YNull \<rparr>
        (awx_empty, no_results) = (awx_empty, no_results)"
proof -
  have h: "\<not> py_truthy YNull \<or> \<not> is_list YNull" by simp
  from parse_playbook_empty_result [OF h] show ?thesis by simp
qed

section \<open>The resource builder\<close>




lemma build_template_data_Inr:
  assumes "build_template_data meta cfg = Inr td"
  shows "td_name td = template_name_of meta"
    and "generate_description (pm_name meta) (pm_vars meta) = Inr (td_description td)"
    and "\<exists>ev. extract_extra_vars (pm_vars meta) = Inr ev \<and> td_extra_vars td = yaml_dump ev"
    and "td_ask_limit_on_launch td =
           (if str_contains ''target_device'' (pm_filepath meta)
               \<or> str_contains ''all'' (pm_filepath meta)
            then Some False else None)"
  using assms
  by (auto simp: build_template_data_def and_then_def Let_def split: sum.splits if_splits)


lemma kitchen_parse:
  "parse_playbook (pf_rel_path kitchen_file) (pf_loaded kitchen_file) = Inr (Some kitchen_meta)"
  by code_simp




text \<open>
  Claim C1, as stated, fails in the description: \<open>build_template_data\<close> hands the
  playbook's own name, which is empty here, to \<open>generate_description\<close>, not the name it
  derived from the path.  The description is \<open> | Patterns: a, b\<close> and not
  \<open>Flash All | Patterns: a, b\<close>.
\<close>

theorem flash_all_description_counterexample:
  "map_sum id td_description (build_template_data flash_all_meta esphome_config)
     = Inr '' | Patterns: a, b''
   \<and> map_sum id td_description (build_template_data flash_all_meta esphome_config)
     \<noteq> Inr ''Flash All | Patterns: a, b''"
  by code_simp

text \<open>
  Claim C1, amended.  For a descriptor with the empty name, the variables
  \<open>{esphome_timeout: 30, device_patterns: [a, b]}\<close> and the path \<open>flash_all.yaml\<close>, the
  payload that \<open>build_template_data\<close> returns has the name \<open>Flash All\<close>, the description
  \<open> | Patterns: a, b\<close> (the empty declared name, then the patterns), the extra variables
  \<open>{esphome_timeout: 30}\<close>, serialised, and \<open>ask_limit_on_launch\<close> set to false.
\<close>

theorem flash_all_scenario:
  assumes "build_template_data
             \<lparr> pm_name = YStr '''', pm_hosts = hosts,
               pm_vars = YMap [(YStr ''esphome_timeout'', YInt 30),
                               (YStr ''device_patterns'', YList [YStr ''a'', YStr ''b''])],
               pm_filepath = ''flash_all.yaml'' \<rparr> cfg = Inr td"
  shows "td_name td = YStr ''Flash All''
       \<and> td_description td = '' | Patterns: a, b''
       \<and> extract_extra_vars (YMap [(YStr ''esphome_timeout'', YInt 30),
                                   (YStr ''device_patterns'', YList [YStr ''a'', YStr ''b''])])
         = Inr [(YStr ''esphome_timeout'', YInt 30)]
       \<and> td_extra_vars td = yaml_dump [(YStr ''esphome_timeout'', YInt 30)]
       \<and> td_ask_limit_on_launch td = Some False"
proof -
  let ?vars = "YMap [(YStr ''esphome_timeout'', YInt 30),
                     (YStr ''device_patterns'', YList [YStr ''a'', YStr ''b''])]"
  have stem: "title (replace_underscores (path_stem ''flash_all.yaml'')) = ''Flash All''"
    by code_simp
  have desc: "generate_description (YStr '''') ?vars = Inr '' | Patterns: a, b''"
    by code_simp
  have ev: "extract_extra_vars ?vars = Inr [(YStr ''esphome_timeout'', YInt 30)]"
    by code_simp
  have "all": "str_contains ''all'' ''flash_all.yaml''"
    by code_simp
  note facts = build_template_data_Inr [OF assms, unfolded playbook_meta.select_convs]
  have 1: "td_name td = YStr ''Flash All''"
    using facts(1) stem by (simp add: template_name_of_def)
  have 2: "td_description td = '' | Patterns: a, b''"
    using facts(2) unfolding desc by simp
  have 3: "td_extra_vars td = yaml_dump [(YStr ''esphome_timeout'', YInt 30)]"
    using facts(3) unfolding ev by simp
  have 4: "td_ask_limit_on_launch td = Some False"
    using facts(4) "all" by simp
  from 1 2 3 4 ev show ?thesis by blast
qed

theorem flash_all_scenario_witness:
  "build_template_data flash_all_meta esphome_config
     = Inr \<lparr> td_name = YStr ''Flash All'',
             td_description = '' | Patterns: a, b'',
             td_job_type = ''run'',
             td_inventory = 3,
             td_project = 7,
             td_playbook = ''flash_all.yaml'',
             td_ask_variables_on_launch = True,
             td_extra_vars = yaml_dump [(YStr ''esphome_timeout'', YInt 30)],
             td_credentials = Some [5],
             td_execution_environment = None,
             td_ask_limit_on_launch = Some False \<rparr>"
proof -
  let ?td = "\<lparr> td_name = YStr ''Flash All'',
               td_description = '' | Patterns: a, b'',
               td_job_type = ''run'',
               td_inventory = 3,
               td_project = 7,
               td_playbook = ''flash_all.yaml'',
               td_ask_variables_on_launch = True,
               td_extra_vars = yaml_dump [(YStr ''esphome_timeout'', YInt 30)],
               td_credentials = Some [5],
               td_execution_environment = None,
               td_ask_limit_on_launch = Some False \<rparr>"
  have b: "build_template_data flash_all_meta esphome_config = Inr ?td"
    by code_simp
  from flash_all_scenario [OF b [unfolded flash_all_meta_def]] b
  show ?thesis by simp
qed

section \<open>Reconciliation\<close>

text \<open>Every call of the manager appends its request to the log.\<close>

lemma sending_sent: "sending rq f w = (r, w') \<Longrightarrow> sent w' = sent w @ [rq]"
  by (auto simp: sending_def split: prod.splits)

lemma get_template_sent:
  "get_template R name w = (r, w') \<Longrightarrow> sent w' = sent w @ [GET_job_templates name]"
  by (auto simp: get_template_def split: prod.splits sum.splits dest: sending_sent)


lemma update_template_sent:
  "update_template R template_id payload w = (r, w') \<Longrightarrow>
   sent w' = sent w @ [PATCH_job_template template_id payload]"
  by (auto simp: update_template_def dest: sending_sent)

lemma associate_credentials_sent:
  "sent (associate_credentials R template_id credential_ids w) =
   sent w @ map (POST_credentials template_id) credential_ids"
proof (induction credential_ids arbitrary: w)
  case Nil
  show ?case by simp
next
  case (Cons c cs)
  have "sent (snd (sending (POST_credentials template_id c) (post_credential R template_id c) w))
        = sent w @ [POST_credentials template_id c]"
    by (cases "sending (POST_credentials template_id c) (post_credential R template_id c) w")
       (auto dest: sending_sent)
  then show ?case by (simp add: Cons.IH)
qed

lemma link_credentials_sent:
  "sent (link_credentials R template_id credentials w) =
   sent w @ map (POST_credentials template_id)
              (case credentials of None \<Rightarrow> [] | Some cs \<Rightarrow> cs)"
  by (auto simp: link_credentials_def associate_credentials_sent split: option.splits)



text \<open>
  Claim C4.  After a first reconciliation of a payload has returned a resource, a second
  reconciliation of the same payload, on a service whose lookup by the payload's name
  now returns that resource, takes the update branch: it sends the lookup, then the
  update of that resource's identifier with the payload less its credentials, then at
  most credential links, and it sends no creation request.
\<close>

theorem reconcile_second_run_updates:
  assumes first: "create_or_update_template R td w0 = (Inr result, w)"
      and find: "fst (get_template R (td_name td) w) = Inr (Some result)"
  shows "\<exists>out w2 links. create_or_update_template R td w = (out, w2)
           \<and> sent w2 = sent w
               @ [GET_job_templates (td_name td),
                  PATCH_job_template (res_id result) (td \<lparr> td_credentials := None \<rparr>)]
               @ map (POST_credentials (res_id result)) links
           \<and> (\<forall>payload. POST_job_templates payload
                           \<notin> set (drop (length (sent w)) (sent w2)))"
proof -
  let ?payload = "td \<lparr> td_credentials := None \<rparr>"
  obtain w1 where g: "get_template R (td_name td) w = (Inr (Some result), w1)"
    using find by (cases "get_template R (td_name td) w") auto
  have s1: "sent w1 = sent w @ [GET_job_templates (td_name td)]"
    by (rule get_template_sent [OF g])
  obtain r2 w2 where u: "update_template R (res_id result) ?payload w1 = (r2, w2)"
    by (cases "update_template R (res_id result) ?payload w1") auto
  have s2: "sent w2 = sent w @ [GET_job_templates (td_name td),
                                 PATCH_job_template (res_id result) ?payload]"
    using update_template_sent [OF u] s1 by simp
  show ?thesis
  proof (cases r2)
    case (Inl e)
    with g u have "create_or_update_template R td w = (Inl e, w2)"
      by (simp add: create_or_update_template_def)
    with s2 show ?thesis
      by (intro exI [of _ "Inl e"] exI [of _ w2] exI [of _ "[]"]) auto
  next
    case (Inr res2)
    let ?w3 = "link_credentials R (res_id result) (td_credentials td) w2"
    let ?links = "case td_credentials td of None \<Rightarrow> [] | Some cs \<Rightarrow> cs"
    from Inr g u have "create_or_update_template R td w = (Inr res2, ?w3)"
      by (simp add: create_or_update_template_def)
    moreover have "sent ?w3 = sent w @ [GET_job_templates (td_name td),
                                        PATCH_job_template (res_id result) ?payload]
                              @ map (POST_credentials (res_id result)) ?links"
      by (simp add: link_credentials_sent s2)
    ultimately show ?thesis
      by (intro exI [of _ "Inr res2"] exI [of _ ?w3] exI [of _ ?links]) auto
  qed
qed

theorem reconcile_second_run_updates_witness:
  "create_or_update_template awx_service kitchen_template awx_empty
     = (Inr kitchen_resource, awx_after_first)
   \<and> fst (get_template awx_service (td_name kitchen_template) awx_after_first)
     = Inr (Some kitchen_resource)
   \<and> POST_job_templates (kitchen_template \<lparr> td_credentials := None \<rparr>)
       \<notin> set (drop (length (sent awx_after_first))
                 (sent (snd (create_or_update_template awx_service kitchen_template
                               awx_after_first))))
   \<and> map res_id (awx_templates (srv (snd (create_or_update_template awx_service
                                           kitchen_template awx_after_first)))) = [1]"
proof -
  have first: "create_or_update_template awx_service kitchen_template awx_empty
                 = (Inr kitchen_resource, awx_after_first)"
    by code_simp
  have find: "fst (get_template awx_service (td_name kitchen_template) awx_after_first)
                = Inr (Some kitchen_resource)"
    by code_simp
  have one: "map res_id (awx_templates (srv (snd (create_or_update_template awx_service
               kitchen_template awx_after_first)))) = [1]"
    by code_simp
  from reconcile_second_run_updates [OF first find] first find one
  show ?thesis by auto
qed



section \<open>The loop of main\<close>

text \<open>
  Claim C2.  A file for which \<open>parse_playbook\<close> returns the empty dictionary, or metadata
  whose name is empty (or false in any other way), is skipped by the loop of main: the
  service and the log of requests are as before, and so are the three lists of the
  summary.  Whenever the loop does anything for a parsed file, the name that
  \<open>build_template_data\<close> gives the template is the playbook's own name, so the name
  derived from the path is never used there.
\<close>

theorem nameless_playbook_skipped:
  "(parse_playbook (pf_rel_path f) (pf_loaded f) = Inr None \<longrightarrow>
      process_playbook R cfg f (w, res) = (w, res))
   \<and> (parse_playbook (pf_rel_path f) (pf_loaded f) = Inr (Some meta) \<longrightarrow>
        (\<not> py_truthy (pm_name meta) \<longrightarrow> process_playbook R cfg f (w, res) = (w, res))
      \<and> (pm_name meta = YStr '''' \<longrightarrow> process_playbook R cfg f (w, res) = (w, res))
      \<and> (process_playbook R cfg f (w, res) \<noteq> (w, res) \<longrightarrow>
           template_name_of meta = pm_name meta))"
proof -
  have none: "process_playbook R cfg f (w, res) = (w, res)"
    if "parse_playbook (pf_rel_path f) (pf_loaded f) = Inr None"
    using that by (simp add: process_playbook_def)
  have skip: "process_playbook R cfg f (w, res) = (w, res)"
    if "parse_playbook (pf_rel_path f) (pf_loaded f) = Inr (Some meta)"
      and "\<not> py_truthy (pm_name meta)"
    using that by (simp add: process_playbook_def)
  from none skip show ?thesis
    by (auto simp: template_name_of_def)
qed

theorem nameless_playbook_skipped_witness:
  "parse_playbook ''empty.yaml'' (Inr (YList [])) = Inr None
   \<and> process_playbook awx_service esphome_config
       \<lparr> pf_name = ''empty.yaml'', pf_rel_path = ''empty.yaml'', pf_loaded = Inr (YList []) \<rparr>
       (awx_empty, no_results) = (awx_empty, no_results)
   \<and> parse_playbook (pf_rel_path flash_all_file) (pf_loaded flash_all_file)
     = Inr (Some flash_all_meta)
   \<and> pm_name flash_all_meta = YStr ''''
   \<and> process_playbook awx_service esphome_config flash_all_file (awx_empty, no_results)
     = (awx_empty, no_results)
   \<and> process_playbook awx_service esphome_config kitchen_file (awx_empty, no_results)
     \<noteq> (awx_empty, no_results)
   \<and> template_name_of kitchen_meta = pm_name kitchen_meta"
proof -
  let ?empty = "\<lparr> pf_name = ''empty.yaml'', pf_rel_path = ''empty.yaml'',
                  pf_loaded = Inr (YList []) \<rparr>"
  have e: "parse_playbook (pf_rel_path ?empty) (pf_loaded ?empty) = Inr None"
    by code_simp
  have p: "parse_playbook (pf_rel_path flash_all_file) (pf_loaded flash_all_file)
             = Inr (Some flash_all_meta)"
    by code_simp
  have n: "pm_name flash_all_meta = YStr ''''"
    by (simp add: flash_all_meta_def)
  have c: "process_playbook awx_service esphome_config kitchen_file (awx_empty, no_results)
             \<noteq> (awx_empty, no_results)"
    by code_simp
  from nameless_playbook_skipped
         [where f = ?empty and R = awx_service and cfg = esphome_config
            and w = awx_empty and res = no_results]
       nameless_playbook_skipped
         [where f = flash_all_file and meta = flash_all_meta and R = awx_service
            and cfg = esphome_config and w = awx_empty and res = no_results]
       nameless_playbook_skipped
         [where f = kitchen_file and meta = kitchen_meta and R = awx_service
            and cfg = esphome_config and w = awx_empty and res = no_results]
       e p n c kitchen_parse
  show ?thesis by simp
qed

text \<open>
  The summary list is chosen by a lookup made after the reconciliation.  When the
  template was not there, has just been created with an identifier that is not zero,
  and the service then finds it, its name goes to \<open>updated\<close> and \<open>created\<close> stays as it
  was.
\<close>

lemma fresh_template_lands_in_updated:
  assumes "parse_playbook (pf_rel_path f) (pf_loaded f) = Inr (Some meta)"
      and "py_truthy (pm_name meta)"
      and "build_template_data meta cfg = Inr td"
      and "get_template R (td_name td) w = (Inr None, w1)"
      and "create_template R (td \<lparr> td_credentials := None \<rparr>) w1 = (Inr result, w2)"
      and "res_id result \<noteq> 0"
      and "get_template R (td_name td)
             (link_credentials R (res_id result) (td_credentials td) w2) = (Inr (Some found), w4)"
  shows "snd (process_playbook R cfg f (w, res))
         = res \<lparr> updated := updated res @ [td_name td] \<rparr>"
  using assms by (simp add: process_playbook_def create_or_update_template_def)

text \<open>
  Claim C3 fails on the code.  On a service that has no template, the run over the one
  playbook \<open>Flash Kitchen\<close> looks the name up and finds nothing, creates the template,
  links the credential, looks the name up again, finds what it has just created, and
  so counts the template under \<open>updated\<close>: \<open>created\<close> stays empty.
\<close>

theorem created_template_counted_as_updated:
  "fst (get_template awx_service (YStr ''Flash Kitchen'') awx_empty) = Inr None
   \<and> snd (process_playbooks awx_service esphome_config [kitchen_file] (awx_empty, no_results))
     = \<lparr> created = [], updated = [YStr ''Flash Kitchen''], failed = [] \<rparr>
   \<and> sent (fst (process_playbooks awx_service esphome_config [kitchen_file]
                   (awx_empty, no_results)))
     = [GET_job_templates (YStr ''Flash Kitchen''),
        POST_job_templates (kitchen_template \<lparr> td_credentials := None \<rparr>),
        POST_credentials 1 5,
        GET_job_templates (YStr ''Flash Kitchen'')]"
  by code_simp

section \<open>The survey\<close>

text \<open>
  The order on strings is the lexicographic one over the character codes: capital
  letters come before small ones.
\<close>

lemma string_order_by_codes:
  "(c # cs \<le> d # ds) =
     ((of_char c :: nat) < of_char d \<or> (of_char c :: nat) = of_char d \<and> cs \<le> ds)"
  "([] \<le> (s :: string)) = True"
  "(c # cs \<le> ([] :: string)) = False"
  by (auto simp: less_char_def)

text \<open>
  Claim C10.  For every applications mapping, \<open>build_survey_spec\<close> gives exactly one
  question; its variable is \<open>app_name\<close>, it is required, its type is \<open>multiplechoice\<close>,
  and its choices are the application names in ascending order of the strings (the
  same names, as often).  Two mappings with the same names in another order give the
  same survey, and the empty mapping gives the empty list of choices.
\<close>

theorem build_survey_spec_sorted_choices:
  "(\<exists>q. spec (build_survey_spec applications) = [q]
        \<and> variable q = ''app_name'' \<and> required q = True \<and> qtype q = ''multiplechoice''
        \<and> sorted (choices q) \<and> mset (choices q) = mset (map fst applications))
   \<and> (\<forall>other :: (string \<times> 'a) list.
         mset (map fst other) = mset (map fst applications) \<longrightarrow>
         build_survey_spec other = build_survey_spec applications)
   \<and> choices (hd (spec (build_survey_spec ([] :: (string \<times> 'a) list)))) = []"
proof -
  have "sort (map fst other) = sort (map fst applications)"
    if "mset (map fst other) = mset (map fst applications)" for other :: "(string \<times> 'a) list"
    using that by (intro properties_for_sort) simp_all
  then show ?thesis
    by (simp add: build_survey_spec_def)
qed

theorem build_survey_spec_sorted_choices_witness:
  "choices (hd (spec (build_survey_spec [(''zeta'', ()), (''alpha'', ()), (''Beta'', ())])))
     = [''Beta'', ''alpha'', ''zeta'']
   \<and> mset (map fst [(''alpha'', ()), (''Beta'', ()), (''zeta'', ())])
     = mset (map fst [(''zeta'', ()), (''alpha'', ()), (''Beta'', ())])
   \<and> build_survey_spec [(''alpha'', ()), (''Beta'', ()), (''zeta'', ())]
     = build_survey_spec [(''zeta'', ()), (''alpha'', ()), (''Beta'', ())]"
proof -
  let ?apps = "[(''zeta'', ()), (''alpha'', ()), (''Beta'', ())]"
  let ?other = "[(''alpha'', ()), (''Beta'', ()), (''zeta'', ())]"
  have s: "[''Beta'', ''alpha'', ''zeta''] = sort [''zeta'', ''alpha'', ''Beta'']"
    by code_simp
  have p: "mset (map fst ?other) = mset (map fst ?apps)"
    by (simp add: add.commute add.left_commute)
  from build_survey_spec_sorted_choices [of ?apps]
  have "mset (map fst other) = mset (map fst ?apps) \<Longrightarrow>
        build_survey_spec other = build_survey_spec ?apps" for other :: "(string \<times> unit) list"
    by blast
  from this [OF p] have e: "build_survey_spec ?other = build_survey_spec ?apps" .
  have "choices (hd (spec (build_survey_spec ?apps))) = [''Beta'', ''alpha'', ''zeta'']"
    unfolding s by (simp add: build_survey_spec_def)
  with p e show ?thesis by blast
qed

end
